theory Spec2Isabelle
  imports Complex_Main "HOL-Library.AList"
begin

section \<open>Data model\<close>

text \<open>
  The script \<^verbatim>\<open>convert-to-static.py\<close> pins the variation axes of a font and
  writes the static instance. Font parsing, instancing and serialisation belong to the
  fontTools library; integer parsing and \<^verbatim>\<open>repr\<close> belong to the Python interpreter.
  Both are taken as parameters (record \<open>env\<close> below): what is proved holds for every
  behaviour of them.
\<close>

type_synonym path = string
type_synonym bytes = string

text \<open>
  The values of the axis-limits dictionary: the Python integers the script writes itself
  (\<^verbatim>\<open>weight\<close>, \<^verbatim>\<open>100\<close>, \<^verbatim>\<open>0\<close>, \<^verbatim>\<open>1\<close>, \<^verbatim>\<open>-12\<close>)
  and the float read from \<^verbatim>\<open>axis.defaultValue\<close>. The latter comes from a 16.16
  fixed-point field of the font, so it is a rational; the script never computes with it.
\<close>

datatype number = PyInt int | PyFloat rat

text \<open>An entry of \<^verbatim>\<open>fvar.axes\<close>, with the two attributes the script reads.\<close>

record axis =
  axisTag :: string
  defaultValue :: rat

text \<open>
  A parsed font (\<^verbatim>\<open>TTFont\<close>): \<open>fvar\<close> is \<open>None\<close> when \<^verbatim>\<open>'fvar' not in font\<close>,
  and otherwise holds \<^verbatim>\<open>font['fvar'].axes\<close>; \<open>tables\<close> stands for everything else.
\<close>

record ttfont =
  fvar :: "axis list option"
  tables :: bytes

text \<open>
  A Python dictionary is kept as an association list in insertion order;
  \<^verbatim>\<open>d[k] = v\<close> is \<^const>\<open>AList.update\<close>, which replaces the value of a key
  already present and appends a new key at the end.
\<close>

type_synonym axis_limits = "(string \<times> number) list"

section \<open>The axis pinning policy (lines 50 to 80)\<close>

text \<open>
  \<^verbatim>\<open>
  for axis in fvar.axes:
      if axis.axisTag == 'opsz':
          axis_limits['opsz'] = axis.defaultValue
          break
  \<close>
\<close>

fun pin_opsz :: "axis list \<Rightarrow> axis_limits \<Rightarrow> axis_limits" where
  "pin_opsz [] axis_limits = axis_limits"
| "pin_opsz (a # as) axis_limits =
     (if axisTag a = ''opsz''
      then AList.update ''opsz'' (PyFloat (defaultValue a)) axis_limits
      else pin_opsz as axis_limits)"

definition build_axis_limits :: "axis list \<Rightarrow> int \<Rightarrow> bool \<Rightarrow> axis_limits" where
  "build_axis_limits axes weight italic =
     (let axis_tags = map axisTag axes;
          l0 = [];
          l1 = (if ''wght'' \<in> set axis_tags
                then AList.update ''wght'' (PyInt weight) l0 else l0);
          l2 = (if ''wdth'' \<in> set axis_tags
                then AList.update ''wdth'' (PyInt 100) l1 else l1);
          l3 = (if ''ital'' \<in> set axis_tags
                then AList.update ''ital'' (PyInt (if italic then 1 else 0)) l2 else l2);
          l4 = (if ''slnt'' \<in> set axis_tags
                then AList.update ''slnt'' (PyInt (if italic then - 12 else 0)) l3 else l3);
          l5 = (if ''opsz'' \<in> set axis_tags then pin_opsz axes l4 else l4)
      in l5)"

text \<open>The five tags the policy knows.\<close>

definition pinned_tags :: "string set" where
  "pinned_tags = {''wght'', ''wdth'', ''ital'', ''slnt'', ''opsz''}"

text \<open>
  The policy as the specification tabulates it, tag by tag: the value pinned for tag \<open>T\<close>
  of a font whose axes are \<open>axes\<close>. The default of \<^verbatim>\<open>opsz\<close> is the one the first
  axis of that tag declares.
\<close>

definition pinned_value :: "axis list \<Rightarrow> int \<Rightarrow> bool \<Rightarrow> string \<Rightarrow> number option" where
  "pinned_value axes weight italic T =
     (if T \<notin> set (map axisTag axes) then None
      else if T = ''wght'' then Some (PyInt weight)
      else if T = ''wdth'' then Some (PyInt 100)
      else if T = ''ital'' then Some (PyInt (if italic then 1 else 0))
      else if T = ''slnt'' then Some (PyInt (if italic then - 12 else 0))
      else if T = ''opsz''
        then map_option (\<lambda>a. PyFloat (defaultValue a)) (find (\<lambda>a. axisTag a = ''opsz'') axes)
      else None)"

section \<open>The environment: library, interpreter, file system\<close>

text \<open>
  An exception that is an instance of Python's \<^verbatim>\<open>Exception\<close>: its class name and
  \<^verbatim>\<open>str(e)\<close>. These are the exceptions the library, \<^verbatim>\<open>int\<close> and the file
  system raise, and the ones \<^verbatim>\<open>except Exception\<close> catches.
\<close>

datatype exn = Exception (cls: string) (message: string)

text \<open>
  What the script calls and does not define:
  \<^item> \<open>py_int\<close>: the builtin \<^verbatim>\<open>int(s)\<close>, raising on a string that is no integer;
  \<^item> \<open>repr_dict\<close>: how an f-string renders the axis-limits dictionary;
  \<^item> \<open>parse\<close>: the table directory \<^verbatim>\<open>TTFont(path)\<close> reads from the file's bytes;
  \<^item> \<open>instantiateVariableFont\<close>: \<^verbatim>\<open>instancer.instantiateVariableFont(font, limits,
    inplace, optimize, updateFontNames)\<close>, returning a new font or raising;
  \<^item> \<open>compile\<close>: the bytes \<^verbatim>\<open>font.save\<close> writes for a font, or the exception it raises.
\<close>

record env =
  py_int :: "string \<Rightarrow> exn + int"
  repr_dict :: "axis_limits \<Rightarrow> string"
  parse :: "bytes \<Rightarrow> exn + ttfont"
  instantiateVariableFont :: "ttfont \<Rightarrow> axis_limits \<Rightarrow> bool \<Rightarrow> bool \<Rightarrow> bool \<Rightarrow> exn + ttfont"
  compile :: "ttfont \<Rightarrow> exn + bytes"

text \<open>The two font objects of a conversion, named after the variables that hold them.\<close>

datatype handle = Varfont | StaticFont

text \<open>The calls into the library, recorded in the order they are made.\<close>

datatype call =
    OpenFont path
  | Instantiate axis_limits bool bool bool
  | SaveFont handle path
  | CloseFont handle

text \<open>
  The world the script runs in: the regular files by path, the paths whose writing fails
  (with the exception raised: disk full, no permission), the lines printed so far and the
  library calls made so far.
\<close>

record world =
  files :: "path \<rightharpoonup> bytes"
  write_error :: "path \<rightharpoonup> exn"
  stdout :: "string list"
  calls :: "call list"

definition print :: "string \<Rightarrow> world \<Rightarrow> world" where
  "print s w = w\<lparr>stdout := stdout w @ [s]\<rparr>"

definition record_call :: "call \<Rightarrow> world \<Rightarrow> world" where
  "record_call c w = w\<lparr>calls := calls w @ [c]\<rparr>"

text \<open>\<^verbatim>\<open>TTFont(path)\<close>: opens the file and reads its table directory.\<close>

definition TTFont :: "env \<Rightarrow> path \<Rightarrow> world \<Rightarrow> (exn + ttfont) \<times> world" where
  "TTFont E p w =
     (let w' = record_call (OpenFont p) w
      in case files w p of
           None \<Rightarrow> (Inl (Exception ''FileNotFoundError'' p), w')
         | Some bs \<Rightarrow> (parse E bs, w'))"

text \<open>
  \<^verbatim>\<open>font.save(path)\<close>: compiles the font and writes the bytes; either step may raise,
  and then the file system is as before.
\<close>

definition save :: "env \<Rightarrow> handle \<Rightarrow> ttfont \<Rightarrow> path \<Rightarrow> world \<Rightarrow> (exn + unit) \<times> world" where
  "save E h font p w =
     (let w' = record_call (SaveFont h p) w
      in case compile E font of
           Inl e \<Rightarrow> (Inl e, w')
         | Inr bs \<Rightarrow>
             (case write_error w p of
                Some e \<Rightarrow> (Inl e, w')
              | None \<Rightarrow> (Inr (), w'\<lparr>files := (files w')(p \<mapsto> bs)\<rparr>)))"

definition close :: "handle \<Rightarrow> world \<Rightarrow> world" where
  "close h w = record_call (CloseFont h) w"

definition instantiate ::
  "env \<Rightarrow> ttfont \<Rightarrow> axis_limits \<Rightarrow> world \<Rightarrow> (exn + ttfont) \<times> world" where
  "instantiate E varfont axis_limits w =
     (instantiateVariableFont E varfont axis_limits False True True,
      record_call (Instantiate axis_limits False True True) w)"

definition path_exists :: "world \<Rightarrow> path \<Rightarrow> bool" where
  "path_exists w p = (files w p \<noteq> None)"

definition getsize :: "world \<Rightarrow> path \<Rightarrow> exn + nat" where
  "getsize w p =
     (case files w p of
        None \<Rightarrow> Inl (Exception ''FileNotFoundError'' p)
      | Some bs \<Rightarrow> Inr (length bs))"

section \<open>The conversion function (lines 30 to 102)\<close>

text \<open>
  The \<^verbatim>\<open>except Exception as e\<close> block: print the message, close the input font,
  return \<^verbatim>\<open>False\<close>.
\<close>

definition except_handler :: "exn \<Rightarrow> world \<Rightarrow> (exn + bool) \<times> world" where
  "except_handler e w =
     (Inr False, close Varfont (print (''  Error creating static instance: '' @ message e) w))"

text \<open>
  The result is \<open>Inl e\<close> when the exception \<open>e\<close> leaves the function, \<open>Inr b\<close> when it
  returns \<open>b\<close>. The \<^verbatim>\<open>try\<close> block holds the instancing call, the save of the
  static font and its close; the save of the copy-through branch is outside of it.
\<close>

definition convert_variable_to_static ::
  "env \<Rightarrow> path \<Rightarrow> path \<Rightarrow> int \<Rightarrow> bool \<Rightarrow> world \<Rightarrow> (exn + bool) \<times> world" where
  "convert_variable_to_static E input_path output_path weight italic w0 =
     (case TTFont E input_path w0 of
        (Inl e, w1) \<Rightarrow> (Inl e, w1)
      | (Inr varfont, w1) \<Rightarrow>
          (case fvar varfont of
             None \<Rightarrow>
               (case save E Varfont varfont output_path
                       (print ''  Font is already static, copying as-is'' w1) of
                  (Inl e, w2) \<Rightarrow> (Inl e, w2)
                | (Inr u, w2) \<Rightarrow> (Inr True, close Varfont w2))
           | Some axes \<Rightarrow>
               (let axis_limits = build_axis_limits axes weight italic;
                    w2 = print (''  Pinning axes: '' @ repr_dict E axis_limits) w1
                in case instantiate E varfont axis_limits w2 of
                     (Inl e, w3) \<Rightarrow> except_handler e w3
                   | (Inr static_font, w3) \<Rightarrow>
                       (case save E StaticFont static_font output_path w3 of
                          (Inl e, w4) \<Rightarrow> except_handler e w4
                        | (Inr u, w4) \<Rightarrow>
                            (Inr True, close Varfont (close StaticFont w4))))))"

section \<open>The command line (lines 105 to 140)\<close>

text \<open>
  \<^verbatim>\<open>str.lower\<close>, on strings as bytes: an ASCII capital becomes its small letter, every
  other byte stays. Python also lowers letters outside ASCII, but none of them to a letter of
  \<^verbatim>\<open>italic\<close> alone, so the comparison with that token comes out the same.
\<close>

definition lower_char :: "char \<Rightarrow> char" where
  "lower_char c =
     (if 65 \<le> (of_char c :: nat) \<and> (of_char c :: nat) \<le> 90
      then char_of ((of_char c :: nat) + 32) else c)"

definition lower :: "string \<Rightarrow> string" where
  "lower s = map lower_char s"

text \<open>\<^verbatim>\<open>str\<close> of a natural number and of an integer, and \<^verbatim>\<open>{n:,}\<close>.\<close>

definition digit_char :: "nat \<Rightarrow> char" where
  "digit_char d = char_of (48 + d)"

fun str_nat :: "nat \<Rightarrow> string" where
  "str_nat n = (if n < 10 then [digit_char n] else str_nat (n div 10) @ [digit_char (n mod 10)])"

definition str_int :: "int \<Rightarrow> string" where
  "str_int i = (if i < 0 then CHR ''-'' # str_nat (nat (- i)) else str_nat (nat i))"

definition str_bool :: "bool \<Rightarrow> string" where
  "str_bool b = (if b then ''True'' else ''False'')"

fun format_thousands :: "nat \<Rightarrow> string" where
  "format_thousands n =
     (if n < 1000 then str_nat n
      else format_thousands (n div 1000) @ '','' @
           [digit_char (n mod 1000 div 100), digit_char (n mod 100 div 10), digit_char (n mod 10)])"

definition usage_lines :: "string list" where
  "usage_lines =
     [''Usage: convert-to-static.py <input.ttf> <output.ttf> <weight> [italic]'',
      [],
      ''Arguments:'',
      ''  input.ttf   - Path to input variable font'',
      ''  output.ttf  - Path for output static font'',
      ''  weight      - Font weight (100-900)'',
      ''  italic      - Optional: 'italic' to create italic instance'',
      [],
      ''Examples:'',
      ''  python3 convert-to-static.py Roboto[wght].ttf Roboto-Regular.ttf 400'',
      ''  python3 convert-to-static.py Roboto[wght].ttf Roboto-Bold.ttf 700'']"

text \<open>
  How the process ends: \<^verbatim>\<open>sys.exit(n)\<close>, or an exception no handler caught. For the
  latter the interpreter prints a traceback and the exit status is 1.
\<close>

datatype outcome = Exit int | Uncaught exn

fun exit_status :: "outcome \<Rightarrow> int" where
  "exit_status (Exit n) = n"
| "exit_status (Uncaught e) = 1"

text \<open>
  \<^verbatim>\<open>len(sys.argv) > 4 and sys.argv[4].lower() == 'italic'\<close>: the second operand is
  evaluated only when the first holds.
\<close>

definition italic_flag :: "string list \<Rightarrow> bool" where
  "italic_flag argv = (length argv > 4 \<and> lower (argv ! 4) = ''italic'')"

text \<open>
  \<^verbatim>\<open>main()\<close>, run once the imports of lines 22 to 27 have succeeded. \<open>argv\<close> is
  \<^verbatim>\<open>sys.argv\<close>: the script's name, then the positional arguments.
\<close>

definition main :: "env \<Rightarrow> string list \<Rightarrow> world \<Rightarrow> outcome \<times> world" where
  "main E argv w0 =
     (if length argv < 4 then (Exit 1, foldl (\<lambda>w s. print s w) w0 usage_lines)
      else
        (let input_file = argv ! 1;
             output_file = argv ! 2
         in (case py_int E (argv ! 3) of
               Inl e \<Rightarrow> (Uncaught e, w0)
             | Inr weight \<Rightarrow>
                (let italic = italic_flag argv
                 in if \<not> path_exists w0 input_file
                    then (Exit 1, print (''Error: Input file not found: '' @ input_file) w0)
                    else
                     (let w1 = print (''Converting: '' @ input_file @ '' -> '' @ output_file) w0;
                          w2 = print (''  Weight: '' @ str_int weight @ '', Italic: ''
                                      @ str_bool italic) w1
                      in (case convert_variable_to_static E input_file output_file
                                 weight italic w2 of
                            (Inl e, w3) \<Rightarrow> (Uncaught e, w3)
                          | (Inr success, w3) \<Rightarrow>
                             (if success
                              then (case getsize w3 output_file of
                                      Inl e \<Rightarrow> (Uncaught e, w3)
                                    | Inr sz \<Rightarrow>
                                       (Exit 0,
                                        print (''  Created static font: '' @ output_file
                                               @ '' ('' @ format_thousands sz @ '' bytes)'') w3))
                              else (Exit 1, print ''  Failed to create static font'' w3))))))))"

text \<open>
  Case-insensitive equality as the specification words it: two strings of the same length
  whose characters agree up to the case of a letter.
\<close>

definition case_pairs :: "(char \<times> char) list" where
  "case_pairs = zip ''ABCDEFGHIJKLMNOPQRSTUVWXYZ'' ''abcdefghijklmnopqrstuvwxyz''"

definition same_letter :: "char \<Rightarrow> char \<Rightarrow> bool" where
  "same_letter c d = (c = d \<or> (c, d) \<in> set case_pairs \<or> (d, c) \<in> set case_pairs)"

definition equal_ignoring_case :: "string \<Rightarrow> string \<Rightarrow> bool" where
  "equal_ignoring_case s t = list_all2 same_letter s t"

text \<open>The library calls made between two worlds.\<close>

definition calls_made :: "world \<Rightarrow> world \<Rightarrow> call list" where
  "calls_made w w' = drop (length (calls w)) (calls w')"

definition lines_printed :: "world \<Rightarrow> world \<Rightarrow> string list" where
  "lines_printed w w' = drop (length (stdout w)) (stdout w')"

section \<open>A sample environment\<close>

text \<open>
  A small instance of the environment, for running the model on concrete inputs. Its font
  files are a marker byte (\<^verbatim>\<open>V\<close> for a font with an \<^verbatim>\<open>fvar\<close> table) and the
  table data; its serialiser pads the table data to a multiple of four bytes, as an sfnt
  writer does; its instancer rejects a weight above 1000; its \<^verbatim>\<open>int\<close> reads an
  optional minus sign and decimal digits.
\<close>

fun decimal_value :: "string \<Rightarrow> nat \<Rightarrow> nat option" where
  "decimal_value [] acc = Some acc"
| "decimal_value (c # cs) acc =
     (if 48 \<le> (of_char c :: nat) \<and> (of_char c :: nat) \<le> 57
      then decimal_value cs (10 * acc + ((of_char c :: nat) - 48)) else None)"

definition invalid_literal :: "string \<Rightarrow> exn" where
  "invalid_literal s = Exception ''ValueError'' (''invalid literal for int() with base 10: '' @ s)"

definition sample_int :: "string \<Rightarrow> exn + int" where
  "sample_int s =
     (case s of
        [] \<Rightarrow> Inl (invalid_literal s)
      | c # cs \<Rightarrow>
          if c = CHR ''-''
          then (case (cs, decimal_value cs 0) of
                  (d # ds, Some n) \<Rightarrow> Inr (- int n)
                | _ \<Rightarrow> Inl (invalid_literal s))
          else (case decimal_value s 0 of
                  Some n \<Rightarrow> Inr (int n)
                | None \<Rightarrow> Inl (invalid_literal s)))"

definition sample_axes :: "axis list" where
  "sample_axes =
     [\<lparr>axisTag = ''wght'', defaultValue = 400\<rparr>,
      \<lparr>axisTag = ''GRAD'', defaultValue = 0\<rparr>,
      \<lparr>axisTag = ''opsz'', defaultValue = 14\<rparr>]"

definition sample_parse :: "bytes \<Rightarrow> exn + ttfont" where
  "sample_parse bs =
     (case bs of
        [] \<Rightarrow> Inl (Exception ''TTLibError'' ''Not a TrueType or OpenType font (not enough data)'')
      | c # rest \<Rightarrow>
          Inr \<lparr>fvar = (if c = CHR ''V'' then Some sample_axes else None), tables = rest\<rparr>)"

definition pad4 :: "bytes \<Rightarrow> bytes" where
  "pad4 bs = bs @ replicate ((4 - length bs mod 4) mod 4) (CHR 0x00)"

definition sample_compile :: "ttfont \<Rightarrow> exn + bytes" where
  "sample_compile font =
     Inr ((if fvar font = None then CHR ''S'' else CHR ''V'') # pad4 (tables font))"

definition sample_instantiate ::
  "ttfont \<Rightarrow> axis_limits \<Rightarrow> bool \<Rightarrow> bool \<Rightarrow> bool \<Rightarrow> exn + ttfont" where
  "sample_instantiate font limits inplace optimize updateFontNames =
     (case map_of limits ''wght'' of
        Some (PyInt n) \<Rightarrow>
          if n > 1000
          then Inl (Exception ''ValueError'' ''wght: value out of range'')
          else Inr \<lparr>fvar = None, tables = tables font\<rparr>
      | _ \<Rightarrow> Inr \<lparr>fvar = None, tables = tables font\<rparr>)"

definition sample_env :: env where
  "sample_env =
     \<lparr>py_int = sample_int,
      repr_dict = (\<lambda>l. concat (map fst l)),
      parse = sample_parse,
      instantiateVariableFont = sample_instantiate,
      compile = sample_compile\<rparr>"

definition permission_denied :: exn where
  "permission_denied = Exception ''PermissionError'' ''[Errno 13] Permission denied''"

definition sample_world :: world where
  "sample_world =
     \<lparr>files = [''Var.ttf'' \<mapsto> ''Vglyphs'', ''Static.ttf'' \<mapsto> ''Sglyphs''],
      write_error = [''/ro/out.ttf'' \<mapsto> permission_denied],
      stdout = [],
      calls = []\<rparr>"

section \<open>Properties of the axis pinning policy\<close>

lemma map_of_pin_opsz:
  "map_of (pin_opsz axes l) =
     (case find (\<lambda>a. axisTag a = ''opsz'') axes of
        None \<Rightarrow> map_of l
      | Some a \<Rightarrow> (map_of l)(''opsz'' \<mapsto> PyFloat (defaultValue a)))"
  by (induction axes) (simp_all add: update_conv')

lemma find_opsz_present:
  "''opsz'' \<in> set (map axisTag axes) \<Longrightarrow> \<exists>a. find (\<lambda>a. axisTag a = ''opsz'') axes = Some a"
  by (induction axes) auto

lemma find_opsz_absent:
  "''opsz'' \<notin> set (map axisTag axes) \<Longrightarrow> find (\<lambda>a. axisTag a = ''opsz'') axes = None"
  by (induction axes) auto

lemma map_of_build_axis_limits:
  "map_of (build_axis_limits axes weight italic) T = pinned_value axes weight italic T"
proof (cases "''opsz'' \<in> set (map axisTag axes)")
  case True
  then obtain a where "find (\<lambda>a. axisTag a = ''opsz'') axes = Some a"
    using find_opsz_present by blast
  with True show ?thesis
    by (simp add: build_axis_limits_def pinned_value_def Let_def update_conv' map_of_pin_opsz)
next
  case False
  then show ?thesis
    by (auto simp add: build_axis_limits_def pinned_value_def Let_def update_conv')
qed

lemma dom_pinned_value:
  "(pinned_value axes weight italic T \<noteq> None) = (T \<in> set (map axisTag axes) \<inter> pinned_tags)"
proof (cases "''opsz'' \<in> set (map axisTag axes)")
  case True
  then obtain a where "find (\<lambda>a. axisTag a = ''opsz'') axes = Some a"
    using find_opsz_present by blast
  then show ?thesis
    by (auto simp add: pinned_value_def pinned_tags_def)
next
  case False
  then show ?thesis
    by (auto simp add: pinned_value_def pinned_tags_def)
qed

lemma dom_build_axis_limits:
  "dom (map_of (build_axis_limits axes weight italic)) = set (map axisTag axes) \<inter> pinned_tags"
proof -
  have "\<And>T. (T \<in> dom (map_of (build_axis_limits axes weight italic)))
          = (T \<in> set (map axisTag axes) \<inter> pinned_tags)"
    using dom_pinned_value [of axes weight italic]
    by (simp add: domIff map_of_build_axis_limits)
  then show ?thesis by blast
qed

text \<open>
  C1. For every list of axes, weight and italic flag, the keys of the axis-limits
  dictionary are the font's tags among \<^verbatim>\<open>wght\<close>, \<^verbatim>\<open>wdth\<close>, \<^verbatim>\<open>ital\<close>,
  \<^verbatim>\<open>slnt\<close>, \<^verbatim>\<open>opsz\<close>; \<^verbatim>\<open>wght\<close> maps to the weight given, \<^verbatim>\<open>wdth\<close> to
  100, \<^verbatim>\<open>ital\<close> to 1 or 0, \<^verbatim>\<open>slnt\<close> to -12 or 0, \<^verbatim>\<open>opsz\<close> to the default
  the font declares for that axis; the dictionary is empty exactly when the font has none of
  the five tags.
\<close>

theorem axis_limits_policy:
  "dom (map_of (build_axis_limits axes weight italic))
     = set (map axisTag axes) \<inter> {''wght'', ''wdth'', ''ital'', ''slnt'', ''opsz''}
   \<and> map_of (build_axis_limits axes weight italic) ''wght''
     = (if ''wght'' \<in> set (map axisTag axes) then Some (PyInt weight) else None)
   \<and> map_of (build_axis_limits axes weight italic) ''wdth''
     = (if ''wdth'' \<in> set (map axisTag axes) then Some (PyInt 100) else None)
   \<and> map_of (build_axis_limits axes weight italic) ''ital''
     = (if ''ital'' \<in> set (map axisTag axes)
        then Some (PyInt (if italic then 1 else 0)) else None)
   \<and> map_of (build_axis_limits axes weight italic) ''slnt''
     = (if ''slnt'' \<in> set (map axisTag axes)
        then Some (PyInt (if italic then - 12 else 0)) else None)
   \<and> map_of (build_axis_limits axes weight italic) ''opsz''
     = map_option (\<lambda>a. PyFloat (defaultValue a)) (find (\<lambda>a. axisTag a = ''opsz'') axes)
   \<and> (build_axis_limits axes weight italic = [])
     = (set (map axisTag axes) \<inter> {''wght'', ''wdth'', ''ital'', ''slnt'', ''opsz''} = {})"
proof -
  have d: "dom (map_of (build_axis_limits axes weight italic))
             = set (map axisTag axes) \<inter> {''wght'', ''wdth'', ''ital'', ''slnt'', ''opsz''}"
    using dom_build_axis_limits [of axes weight italic] by (simp add: pinned_tags_def)
  have o: "map_of (build_axis_limits axes weight italic) ''opsz''
             = map_option (\<lambda>a. PyFloat (defaultValue a)) (find (\<lambda>a. axisTag a = ''opsz'') axes)"
  proof (cases "''opsz'' \<in> set (map axisTag axes)")
    case True
    then show ?thesis by (simp add: map_of_build_axis_limits pinned_value_def)
  next
    case False
    then have "find (\<lambda>a. axisTag a = ''opsz'') axes = None"
      by (rule find_opsz_absent)
    with False show ?thesis by (simp add: map_of_build_axis_limits pinned_value_def)
  qed
  have e: "(build_axis_limits axes weight italic = [])
             = (dom (map_of (build_axis_limits axes weight italic)) = {})"
    by (cases "build_axis_limits axes weight italic") auto
  show ?thesis
    using o by (simp add: d e map_of_build_axis_limits pinned_value_def)
qed

theorem axis_limits_policy_witness:
  "build_axis_limits
     [\<lparr>axisTag = ''wght'', defaultValue = 400\<rparr>, \<lparr>axisTag = ''wdth'', defaultValue = 100\<rparr>,
      \<lparr>axisTag = ''slnt'', defaultValue = 0\<rparr>] 400 False
     = [(''wght'', PyInt 400), (''wdth'', PyInt 100), (''slnt'', PyInt 0)]
   \<and> dom (map_of (build_axis_limits
     [\<lparr>axisTag = ''wght'', defaultValue = 400\<rparr>, \<lparr>axisTag = ''wdth'', defaultValue = 100\<rparr>,
      \<lparr>axisTag = ''slnt'', defaultValue = 0\<rparr>] 400 False)) = {''wght'', ''wdth'', ''slnt''}
   \<and> map_of (build_axis_limits
     [\<lparr>axisTag = ''wght'', defaultValue = 400\<rparr>, \<lparr>axisTag = ''wdth'', defaultValue = 100\<rparr>,
      \<lparr>axisTag = ''slnt'', defaultValue = 0\<rparr>] 400 False) ''slnt'' = Some (PyInt 0)"
  using axis_limits_policy
    [of "[\<lparr>axisTag = ''wght'', defaultValue = 400\<rparr>, \<lparr>axisTag = ''wdth'', defaultValue = 100\<rparr>,
          \<lparr>axisTag = ''slnt'', defaultValue = 0\<rparr>]" 400 False]
  by (simp add: build_axis_limits_def)

text \<open>
  C2, as the specification states it, fails: a font may declare an axis the policy does
  not know, and that tag gets no entry. Here the font declares \<^verbatim>\<open>GRAD\<close>.
\<close>

theorem axis_limits_omit_unknown_tag:
  "''GRAD'' \<in> set (map axisTag sample_axes)
   \<and> ''GRAD'' \<notin> dom (map_of (build_axis_limits sample_axes 400 False))"
  by (simp add: sample_axes_def build_axis_limits_def domIff)

text \<open>
  C2, amended. The axis-limits dictionary has an entry for tag \<open>T\<close> if and only if \<open>T\<close> is
  a tag of the font and one of \<^verbatim>\<open>wght\<close>, \<^verbatim>\<open>wdth\<close>, \<^verbatim>\<open>ital\<close>, \<^verbatim>\<open>slnt\<close>,
  \<^verbatim>\<open>opsz\<close>: no tag is invented, and of the font's tags exactly the other ones are left
  out.
\<close>

theorem axis_limits_entry_iff:
  "(T \<in> dom (map_of (build_axis_limits axes weight italic)))
     = (T \<in> set (map axisTag axes) \<and> T \<in> {''wght'', ''wdth'', ''ital'', ''slnt'', ''opsz''})"
  using dom_build_axis_limits [of axes weight italic] by (simp add: pinned_tags_def)

theorem axis_limits_entry_iff_witness:
  "''opsz'' \<in> dom (map_of (build_axis_limits sample_axes 700 True))
   \<and> ''wdth'' \<notin> dom (map_of (build_axis_limits sample_axes 700 True))"
  using axis_limits_entry_iff [of "''opsz''" sample_axes 700 True]
    axis_limits_entry_iff [of "''wdth''" sample_axes 700 True]
  by (simp add: sample_axes_def)

section \<open>Properties of the conversion function\<close>

lemmas io_defs = TTFont_def save_def close_def instantiate_def print_def record_call_def
  except_handler_def

lemma convert_copy_through:
  assumes "files w inp = Some bs" and "parse E bs = Inr font" and "fvar font = None"
    and "compile E font = Inr bs'" and "write_error w out = None"
  shows "convert_variable_to_static E inp out weight italic w =
           (Inr True,
            w\<lparr>files := (files w)(out \<mapsto> bs'),
              stdout := stdout w @ [''  Font is already static, copying as-is''],
              calls := calls w @ [OpenFont inp, SaveFont Varfont out, CloseFont Varfont]\<rparr>)"
  using assms by (simp add: convert_variable_to_static_def io_defs)


lemma convert_instancing_raises:
  assumes "files w inp = Some bs" and "parse E bs = Inr font" and "fvar font = Some axes"
    and "instantiateVariableFont E font (build_axis_limits axes weight italic) False True True
           = Inl e"
  shows "convert_variable_to_static E inp out weight italic w =
           (Inr False,
            w\<lparr>stdout := stdout w @
                 [''  Pinning axes: '' @ repr_dict E (build_axis_limits axes weight italic),
                  ''  Error creating static instance: '' @ message e],
              calls := calls w @
                 [OpenFont inp,
                  Instantiate (build_axis_limits axes weight italic) False True True,
                  CloseFont Varfont]\<rparr>)"
  using assms by (simp add: convert_variable_to_static_def io_defs Let_def)


lemma main_converts:
  assumes "4 \<le> length argv" and "py_int E (argv ! 3) = Inr weight"
    and "files w (argv ! 1) = Some bs"
  shows "main E argv w =
     (case convert_variable_to_static E (argv ! 1) (argv ! 2) weight (italic_flag argv)
             (print (''  Weight: '' @ str_int weight @ '', Italic: ''
                     @ str_bool (italic_flag argv))
                (print (''Converting: '' @ argv ! 1 @ '' -> '' @ argv ! 2) w)) of
        (Inl e, w3) \<Rightarrow> (Uncaught e, w3)
      | (Inr success, w3) \<Rightarrow>
          (if success
           then (case getsize w3 (argv ! 2) of
                   Inl e \<Rightarrow> (Uncaught e, w3)
                 | Inr sz \<Rightarrow>
                     (Exit 0,
                      print (''  Created static font: '' @ argv ! 2
                             @ '' ('' @ format_thousands sz @ '' bytes)'') w3))
           else (Exit 1, print ''  Failed to create static font'' w3)))"
  using assms by (simp add: main_def Let_def path_exists_def)

lemma files_print [simp]: "files (print s w) = files w"
  by (simp add: print_def)

lemma write_error_print [simp]: "write_error (print s w) = write_error w"
  by (simp add: print_def)

lemma calls_print [simp]: "calls (print s w) = calls w"
  by (simp add: print_def)

lemma stdout_print [simp]: "stdout (print s w) = stdout w @ [s]"
  by (simp add: print_def)




text \<open>
  C4. When the instancing call raises, the exception does not leave the conversion
  function: the function prints the exception's message, closes the input font and returns
  \<^verbatim>\<open>False\<close>, having called the instancer once and written no file; the process then
  prints the failure line and exits with code 1.
\<close>

theorem instancing_exception_handled:
  assumes "4 \<le> length argv" and "py_int E (argv ! 3) = Inr weight"
    and "files w (argv ! 1) = Some bs" and "parse E bs = Inr font"
    and "fvar font = Some axes"
    and "instantiateVariableFont E font
           (build_axis_limits axes weight (italic_flag argv)) False True True = Inl e"
  shows "fst (convert_variable_to_static E (argv ! 1) (argv ! 2) weight (italic_flag argv) w)
           = Inr False
    \<and> lines_printed w
         (snd (convert_variable_to_static E (argv ! 1) (argv ! 2) weight (italic_flag argv) w))
        = [''  Pinning axes: ''
             @ repr_dict E (build_axis_limits axes weight (italic_flag argv)),
           ''  Error creating static instance: '' @ message e]
    \<and> fst (main E argv w) = Exit 1
    \<and> calls_made w (snd (main E argv w))
        = [OpenFont (argv ! 1),
           Instantiate (build_axis_limits axes weight (italic_flag argv)) False True True,
           CloseFont Varfont]
    \<and> lines_printed w (snd (main E argv w))
        = [''Converting: '' @ argv ! 1 @ '' -> '' @ argv ! 2,
           ''  Weight: '' @ str_int weight @ '', Italic: '' @ str_bool (italic_flag argv),
           ''  Pinning axes: ''
             @ repr_dict E (build_axis_limits axes weight (italic_flag argv)),
           ''  Error creating static instance: '' @ message e,
           ''  Failed to create static font'']
    \<and> files (snd (main E argv w)) = files w"
proof -
  let ?w2 = "print (''  Weight: '' @ str_int weight @ '', Italic: ''
                    @ str_bool (italic_flag argv))
               (print (''Converting: '' @ argv ! 1 @ '' -> '' @ argv ! 2) w)"
  have f: "files ?w2 (argv ! 1) = Some bs"
    using assms(3) by simp
  have m: "main E argv w =
     (case convert_variable_to_static E (argv ! 1) (argv ! 2) weight (italic_flag argv) ?w2 of
        (Inl e, w3) \<Rightarrow> (Uncaught e, w3)
      | (Inr success, w3) \<Rightarrow>
          (if success
           then (case getsize w3 (argv ! 2) of
                   Inl e \<Rightarrow> (Uncaught e, w3)
                 | Inr sz \<Rightarrow>
                     (Exit 0,
                      print (''  Created static font: '' @ argv ! 2
                             @ '' ('' @ format_thousands sz @ '' bytes)'') w3))
           else (Exit 1, print ''  Failed to create static font'' w3)))"
    by (rule main_converts [OF assms(1,2,3)])
  note c = convert_instancing_raises [OF assms(3,4,5,6), of "argv ! 2"]
  note c2 = convert_instancing_raises [OF f assms(4,5,6), of "argv ! 2"]
  show ?thesis
    unfolding m c c2
    by (simp add: calls_made_def lines_printed_def)
qed

theorem instancing_exception_handled_witness:
  "fst (main sample_env [''convert-to-static.py'', ''Var.ttf'', ''out.ttf'', ''1400'']
          sample_world) = Exit 1
   \<and> calls_made sample_world
        (snd (main sample_env [''convert-to-static.py'', ''Var.ttf'', ''out.ttf'', ''1400'']
                sample_world))
      = [OpenFont ''Var.ttf'',
         Instantiate [(''wght'', PyInt 1400), (''opsz'', PyFloat 14)] False True True,
         CloseFont Varfont]
   \<and> lines_printed sample_world
        (snd (main sample_env [''convert-to-static.py'', ''Var.ttf'', ''out.ttf'', ''1400'']
                sample_world))
      = [''Converting: Var.ttf -> out.ttf'',
         ''  Weight: 1400, Italic: False'',
         ''  Pinning axes: wghtopsz'',
         ''  Error creating static instance: wght: value out of range'',
         ''  Failed to create static font'']"
proof -
  let ?argv = "[''convert-to-static.py'', ''Var.ttf'', ''out.ttf'', ''1400'']"
  have i: "italic_flag ?argv = False"
    by (simp add: italic_flag_def)
  have l: "build_axis_limits sample_axes 1400 False
             = [(''wght'', PyInt 1400), (''opsz'', PyFloat 14)]"
    by (simp add: build_axis_limits_def sample_axes_def)
  have 1: "4 \<le> length ?argv" by simp
  have 2: "py_int sample_env (?argv ! 3) = Inr 1400"
    by (simp add: sample_env_def sample_int_def)
  have 3: "files sample_world (?argv ! 1) = Some ''Vglyphs''"
    by (simp add: sample_world_def)
  have 4: "parse sample_env ''Vglyphs'' = Inr \<lparr>fvar = Some sample_axes, tables = ''glyphs''\<rparr>"
    by (simp add: sample_env_def sample_parse_def)
  have 5: "fvar \<lparr>fvar = Some sample_axes, tables = ''glyphs''\<rparr> = Some sample_axes"
    by simp
  have 6: "instantiateVariableFont sample_env \<lparr>fvar = Some sample_axes, tables = ''glyphs''\<rparr>
             (build_axis_limits sample_axes 1400 (italic_flag ?argv)) False True True
           = Inl (Exception ''ValueError'' ''wght: value out of range'')"
    by (simp add: i l sample_env_def sample_instantiate_def)
  have s: "str_int 1400 = ''1400''"
    by code_simp
  show ?thesis
    using instancing_exception_handled [OF 1 2 3 4 5 6]
    by (simp add: i l s str_bool_def sample_env_def)
qed

lemma sample_parse_var:
  "parse sample_env ''Vglyphs'' = Inr \<lparr>fvar = Some sample_axes, tables = ''glyphs''\<rparr>"
  by (simp add: sample_env_def sample_parse_def)

lemma sample_parse_static:
  "parse sample_env ''Sglyphs'' = Inr \<lparr>fvar = None, tables = ''glyphs''\<rparr>"
  by (simp add: sample_env_def sample_parse_def)

lemma sample_compile_glyphs:
  "compile sample_env \<lparr>fvar = None, tables = ''glyphs''\<rparr>
     = Inr (''Sglyphs'' @ [CHR 0x00, CHR 0x00])"
  by (simp add: sample_env_def sample_compile_def pad4_def numeral_2_eq_2)

lemma sample_limits_400:
  "build_axis_limits sample_axes 400 False = [(''wght'', PyInt 400), (''opsz'', PyFloat 14)]"
  by (simp add: build_axis_limits_def sample_axes_def)

lemma sample_instantiate_400:
  "instantiateVariableFont sample_env \<lparr>fvar = Some sample_axes, tables = ''glyphs''\<rparr>
     [(''wght'', PyInt 400), (''opsz'', PyFloat 14)] False True True
   = Inr \<lparr>fvar = None, tables = ''glyphs''\<rparr>"
  by (simp add: sample_env_def sample_instantiate_def)

lemma sample_int_400: "py_int sample_env ''400'' = Inr 400"
  by (simp add: sample_env_def sample_int_def)





lemma convert_returns_closed:
  assumes "convert_variable_to_static E inp out weight italic w = (Inr b, w')"
  shows "\<exists>cs. calls w' = calls w @ OpenFont inp # cs @ [CloseFont Varfont]
            \<and> CloseFont Varfont \<notin> set cs"
  using assms
  by (auto simp add: convert_variable_to_static_def io_defs Let_def
      split: option.splits sum.splits prod.splits if_splits)

text \<open>
  C6. Whenever the conversion function returns, with success or with failure, it has closed
  the input font: of the library calls it made, the first opens the input, the last closes
  it, and none in between does.
\<close>

theorem input_font_closed_on_return:
  assumes "fst (convert_variable_to_static E inp out weight italic w) = Inr b"
  shows "\<exists>cs. calls_made w (snd (convert_variable_to_static E inp out weight italic w))
                = OpenFont inp # cs @ [CloseFont Varfont]
            \<and> CloseFont Varfont \<notin> set cs"
proof -
  have "convert_variable_to_static E inp out weight italic w
          = (Inr b, snd (convert_variable_to_static E inp out weight italic w))"
    using assms by (simp add: prod_eq_iff)
  from convert_returns_closed [OF this] show ?thesis
    by (auto simp add: calls_made_def)
qed

lemma convert_instanced:
  assumes "files w inp = Some bs" and "parse E bs = Inr font" and "fvar font = Some axes"
    and "instantiateVariableFont E font (build_axis_limits axes weight italic) False True True
           = Inr static_font"
    and "compile E static_font = Inr bs'" and "write_error w out = None"
  shows "convert_variable_to_static E inp out weight italic w =
           (Inr True,
            w\<lparr>files := (files w)(out \<mapsto> bs'),
              stdout := stdout w @
                 [''  Pinning axes: '' @ repr_dict E (build_axis_limits axes weight italic)],
              calls := calls w @
                 [OpenFont inp,
                  Instantiate (build_axis_limits axes weight italic) False True True,
                  SaveFont StaticFont out, CloseFont StaticFont, CloseFont Varfont]\<rparr>)"
  using assms by (simp add: convert_variable_to_static_def io_defs Let_def)

theorem input_font_closed_on_return_witness:
  "fst (convert_variable_to_static sample_env ''Static.ttf'' ''out.ttf'' 400 False sample_world)
     = Inr True
   \<and> (\<exists>cs. calls_made sample_world
          (snd (convert_variable_to_static sample_env ''Static.ttf'' ''out.ttf'' 400 False
                  sample_world))
          = OpenFont ''Static.ttf'' # cs @ [CloseFont Varfont]
        \<and> CloseFont Varfont \<notin> set cs)
   \<and> fst (convert_variable_to_static sample_env ''Var.ttf'' ''out.ttf'' 400 False sample_world)
     = Inr True
   \<and> (\<exists>cs. calls_made sample_world
          (snd (convert_variable_to_static sample_env ''Var.ttf'' ''out.ttf'' 400 False
                  sample_world))
          = OpenFont ''Var.ttf'' # cs @ [CloseFont Varfont]
        \<and> CloseFont Varfont \<notin> set cs)
   \<and> fst (convert_variable_to_static sample_env ''Var.ttf'' ''out.ttf'' 1400 False sample_world)
     = Inr False
   \<and> (\<exists>cs. calls_made sample_world
          (snd (convert_variable_to_static sample_env ''Var.ttf'' ''out.ttf'' 1400 False
                  sample_world))
          = OpenFont ''Var.ttf'' # cs @ [CloseFont Varfont]
        \<and> CloseFont Varfont \<notin> set cs)"
proof -
  have s: "files sample_world ''Static.ttf'' = Some ''Sglyphs''"
    and v: "files sample_world ''Var.ttf'' = Some ''Vglyphs''"
    and o: "write_error sample_world ''out.ttf'' = None"
    by (simp_all add: sample_world_def)
  have n: "fvar \<lparr>fvar = None, tables = ''glyphs''\<rparr> = None"
    and a: "fvar \<lparr>fvar = Some sample_axes, tables = ''glyphs''\<rparr> = Some sample_axes"
    by simp_all
  have i: "instantiateVariableFont sample_env \<lparr>fvar = Some sample_axes, tables = ''glyphs''\<rparr>
             (build_axis_limits sample_axes 400 False) False True True
           = Inr \<lparr>fvar = None, tables = ''glyphs''\<rparr>"
    by (simp add: sample_limits_400 sample_instantiate_400)
  have j: "instantiateVariableFont sample_env \<lparr>fvar = Some sample_axes, tables = ''glyphs''\<rparr>
             (build_axis_limits sample_axes 1400 False) False True True
           = Inl (Exception ''ValueError'' ''wght: value out of range'')"
    by (simp add: build_axis_limits_def sample_axes_def sample_env_def sample_instantiate_def)
  have 1: "fst (convert_variable_to_static sample_env ''Static.ttf'' ''out.ttf'' 400 False
                  sample_world) = Inr True"
    by (simp add: convert_copy_through [OF s sample_parse_static n sample_compile_glyphs o])
  have 2: "fst (convert_variable_to_static sample_env ''Var.ttf'' ''out.ttf'' 400 False
                  sample_world) = Inr True"
    by (simp add: convert_instanced [OF v sample_parse_var a i sample_compile_glyphs o])
  have 3: "fst (convert_variable_to_static sample_env ''Var.ttf'' ''out.ttf'' 1400 False
                  sample_world) = Inr False"
    by (simp add: convert_instancing_raises [OF v sample_parse_var a j])
  show ?thesis
    using 1 2 3 input_font_closed_on_return [OF 1] input_font_closed_on_return [OF 2]
      input_font_closed_on_return [OF 3]
    by blast
qed

section \<open>Properties of the command line\<close>

lemma foldl_print: "foldl (\<lambda>w s. print s w) w ls = w\<lparr>stdout := stdout w @ ls\<rparr>"
  by (induction ls arbitrary: w) (simp_all add: print_def)

text \<open>
  C7. With fewer than three positional arguments the script prints the usage text and
  exits with code 1. With an input path that does not exist the process ends with status 1
  and no call to the font library is made; when the weight is an integer, this is the
  script's own exit after the line \<^verbatim>\<open>Error: Input file not found\<close>.
\<close>

theorem usage_and_missing_input:
  "(length argv < 4 \<longrightarrow>
      main E argv w = (Exit 1, w\<lparr>stdout := stdout w @ usage_lines\<rparr>))
   \<and> (4 \<le> length argv \<longrightarrow> \<not> path_exists w (argv ! 1) \<longrightarrow>
        exit_status (fst (main E argv w)) = 1
      \<and> calls_made w (snd (main E argv w)) = []
      \<and> (py_int E (argv ! 3) = Inr weight \<longrightarrow>
           main E argv w
             = (Exit 1, w\<lparr>stdout := stdout w @ [''Error: Input file not found: '' @ argv ! 1]\<rparr>)))"
proof -
  have u: "main E argv w = (Exit 1, w\<lparr>stdout := stdout w @ usage_lines\<rparr>)"
    if "length argv < 4"
    using that by (simp add: main_def foldl_print)
  have m: "exit_status (fst (main E argv w)) = 1
      \<and> calls_made w (snd (main E argv w)) = []
      \<and> (py_int E (argv ! 3) = Inr weight \<longrightarrow>
           main E argv w
             = (Exit 1, w\<lparr>stdout := stdout w @ [''Error: Input file not found: '' @ argv ! 1]\<rparr>))"
    if "4 \<le> length argv" and "\<not> path_exists w (argv ! 1)"
    using that
    by (auto simp add: main_def Let_def calls_made_def print_def split: sum.splits)
  from u m show ?thesis by blast
qed

theorem usage_and_missing_input_witness:
  "main sample_env [''convert-to-static.py'', ''Var.ttf'', ''out.ttf''] sample_world
     = (Exit 1, sample_world\<lparr>stdout := stdout sample_world @ usage_lines\<rparr>)
   \<and> \<not> path_exists sample_world ''Missing.ttf''
   \<and> main sample_env [''convert-to-static.py'', ''Missing.ttf'', ''out.ttf'', ''400'']
        sample_world
     = (Exit 1,
        sample_world\<lparr>stdout := stdout sample_world
                       @ [''Error: Input file not found: Missing.ttf'']\<rparr>)
   \<and> calls_made sample_world
        (snd (main sample_env [''convert-to-static.py'', ''Missing.ttf'', ''out.ttf'', ''400'']
                sample_world)) = []"
proof -
  have p: "\<not> path_exists sample_world ''Missing.ttf''"
    by (simp add: path_exists_def sample_world_def)
  show ?thesis
    using p
      usage_and_missing_input
        [of "[''convert-to-static.py'', ''Var.ttf'', ''out.ttf'']" sample_env sample_world]
      usage_and_missing_input
        [of "[''convert-to-static.py'', ''Missing.ttf'', ''out.ttf'', ''400'']"
            sample_env sample_world 400]
    by (simp add: sample_int_400 calls_made_def)
qed

text \<open>
  C9. When the third positional argument is no integer, the exception of \<^verbatim>\<open>int\<close>
  ends the process before the existence of the input path is tested: nothing is printed,
  in particular not \<^verbatim>\<open>Error: Input file not found\<close>, whether the input exists or not.
\<close>

theorem unparseable_weight_raises_first:
  assumes "4 \<le> length argv" and "py_int E (argv ! 3) = Inl e"
  shows "main E argv w = (Uncaught e, w)
    \<and> lines_printed w (snd (main E argv w)) = []"
  using assms by (simp add: main_def lines_printed_def)

theorem unparseable_weight_raises_first_witness:
  "\<not> path_exists sample_world ''Missing.ttf''
   \<and> main sample_env [''convert-to-static.py'', ''Missing.ttf'', ''out.ttf'', ''bold'']
        sample_world
     = (Uncaught (Exception ''ValueError'' ''invalid literal for int() with base 10: bold''),
        sample_world)"
proof -
  let ?argv = "[''convert-to-static.py'', ''Missing.ttf'', ''out.ttf'', ''bold'']"
  have 1: "4 \<le> length ?argv" by simp
  have 2: "py_int sample_env (?argv ! 3)
             = Inl (Exception ''ValueError'' ''invalid literal for int() with base 10: bold'')"
    by (simp add: sample_env_def sample_int_def invalid_literal_def)
  have p: "\<not> path_exists sample_world ''Missing.ttf''"
    by (simp add: path_exists_def sample_world_def)
  show ?thesis
    using p unparseable_weight_raises_first [OF 1 2, of sample_world] by simp
qed

lemma lower_char_eq_iff:
  assumes "97 \<le> (of_char d :: nat)" and "(of_char d :: nat) \<le> 122"
  shows "(lower_char c = d) = (c = d \<or> (of_char c :: nat) + 32 = of_char d)"
proof (cases "65 \<le> (of_char c :: nat) \<and> (of_char c :: nat) \<le> 90")
  case True
  then have "lower_char c = char_of ((of_char c :: nat) + 32)"
    by (simp add: lower_char_def)
  moreover have "(char_of ((of_char c :: nat) + 32) = d) = ((of_char c :: nat) + 32 = of_char d)"
  proof
    assume "char_of ((of_char c :: nat) + 32) = d"
    then have "(of_char (char_of ((of_char c :: nat) + 32)) :: nat) = of_char d"
      by simp
    with True show "(of_char c :: nat) + 32 = of_char d"
      by simp
  next
    assume "(of_char c :: nat) + 32 = of_char d"
    then show "char_of ((of_char c :: nat) + 32) = d"
      by simp
  qed
  moreover have "c \<noteq> d"
    using True assms by auto
  ultimately show ?thesis
    by simp
next
  case False
  then have "lower_char c = c"
    by (auto simp add: lower_char_def)
  moreover have "(of_char c :: nat) + 32 \<noteq> of_char d \<or> c = d"
    using False assms by auto
  ultimately show ?thesis
    using False assms by auto
qed

lemma of_char_nat_eq_iff: "((of_char c :: nat) = of_char d) = (c = d)"
  by (metis char_of_char)

lemma lower_char_letter:
  assumes "(of_char d :: nat) = of_char u + 32" and "65 \<le> (of_char u :: nat)"
    and "(of_char u :: nat) \<le> 90"
  shows "(lower_char c = d) = (c = d \<or> c = u)"
proof -
  have "(lower_char c = d) = (c = d \<or> (of_char c :: nat) + 32 = of_char d)"
    using lower_char_eq_iff [of d c] assms by simp
  then show ?thesis
    using assms by (simp add: of_char_nat_eq_iff)
qed

lemma lower_eq_italic: "(lower s = ''italic'') = equal_ignoring_case s ''italic''"
proof -
  have l: "\<And>c. (lower_char c = CHR ''i'') = same_letter c CHR ''i''"
    "\<And>c. (lower_char c = CHR ''t'') = same_letter c CHR ''t''"
    "\<And>c. (lower_char c = CHR ''a'') = same_letter c CHR ''a''"
    "\<And>c. (lower_char c = CHR ''l'') = same_letter c CHR ''l''"
    "\<And>c. (lower_char c = CHR ''c'') = same_letter c CHR ''c''"
    using lower_char_letter [of "CHR ''i''" "CHR ''I''"]
      lower_char_letter [of "CHR ''t''" "CHR ''T''"]
      lower_char_letter [of "CHR ''a''" "CHR ''A''"]
      lower_char_letter [of "CHR ''l''" "CHR ''L''"]
      lower_char_letter [of "CHR ''c''" "CHR ''C''"]
    by (auto simp add: same_letter_def case_pairs_def)
  show ?thesis
    by (auto simp add: lower_def equal_ignoring_case_def list_all2_Cons2 l)
qed

text \<open>
  C8. The italic flag is true if and only if there is a fourth positional argument and it
  equals \<^verbatim>\<open>italic\<close> up to the case of its letters; with any other fourth argument,
  or none, the conversion is not italic.
\<close>

theorem italic_flag_case_insensitive:
  "italic_flag argv = (length argv > 4 \<and> equal_ignoring_case (argv ! 4) ''italic'')"
  by (simp add: italic_flag_def lower_eq_italic)

theorem italic_flag_case_insensitive_witness:
  "italic_flag [''convert-to-static.py'', ''Var.ttf'', ''out.ttf'', ''400'', ''ItaLIC'']
   \<and> \<not> italic_flag [''convert-to-static.py'', ''Var.ttf'', ''out.ttf'', ''400'', ''oblique'']
   \<and> \<not> italic_flag [''convert-to-static.py'', ''Var.ttf'', ''out.ttf'', ''400'', ''italics'']
   \<and> \<not> italic_flag [''convert-to-static.py'', ''Var.ttf'', ''out.ttf'', ''400'']"
  using
    italic_flag_case_insensitive
      [of "[''convert-to-static.py'', ''Var.ttf'', ''out.ttf'', ''400'', ''ItaLIC'']"]
    italic_flag_case_insensitive
      [of "[''convert-to-static.py'', ''Var.ttf'', ''out.ttf'', ''400'', ''oblique'']"]
    italic_flag_case_insensitive
      [of "[''convert-to-static.py'', ''Var.ttf'', ''out.ttf'', ''400'', ''italics'']"]
    italic_flag_case_insensitive
      [of "[''convert-to-static.py'', ''Var.ttf'', ''out.ttf'', ''400'']"]
  by (simp add: equal_ignoring_case_def same_letter_def case_pairs_def)




end
